theory Spec2Isabelle
  imports Main "HOL-Library.Sublist"
begin

section \<open>Route entries and sidebar items\<close>

text \<open>
  A generated route table is a JavaScript array of objects
  \<^verbatim>\<open>{ path, component: ComponentCreator(path, hash), exact, sidebar, routes }\<close>.
  The fields \<^verbatim>\<open>exact\<close>, \<^verbatim>\<open>sidebar\<close> and \<^verbatim>\<open>routes\<close> are optional in the source:
  an absent \<^verbatim>\<open>exact\<close> is read as \<open>False\<close> (JavaScript's falsy \<^verbatim>\<open>undefined\<close>),
  an absent \<^verbatim>\<open>sidebar\<close> as \<open>None\<close>, and an absent \<^verbatim>\<open>routes\<close> list as \<open>[]\<close>
  (no committed entry has an empty \<^verbatim>\<open>routes\<close> list written out). The catch-all entry is
  created with \<^verbatim>\<open>ComponentCreator('*')\<close>, without a hash.
\<close>

datatype component = ComponentCreator string "string option"

datatype route =
  Route (path: string) (component: component) (exact: bool)
        (sidebar: "string option") (routes: "route list")

text \<open>
  A sidebar item is either a string naming a content page or a category object
  \<^verbatim>\<open>{ type: 'category', label, collapsed, items }\<close>.
\<close>

datatype sidebar_item =
  Doc string
| Category (label: string) (collapsed: bool) (items: "sidebar_item list")

section \<open>The committed route tables\<close>

text \<open>The first route table of \<^verbatim>\<open>src/unnamed/part_000\<close> (lines 4 to 275).\<close>

definition routes_part_000 :: "route list" where
  "routes_part_000 = [
    Route ''/docs'' (ComponentCreator ''/docs'' (Some ''36f''))
       False None [
      Route ''/docs'' (ComponentCreator ''/docs'' (Some ''07a''))
         False None [
        Route ''/docs'' (ComponentCreator ''/docs'' (Some ''d9f''))
           False None [
          Route ''/docs/architecture/components'' (ComponentCreator ''/docs/architecture/components'' (Some ''123''))
             True None [],
          Route ''/docs/architecture/data-flow'' (ComponentCreator ''/docs/architecture/data-flow'' (Some ''d38''))
             True None [],
          Route ''/docs/architecture/overview'' (ComponentCreator ''/docs/architecture/overview'' (Some ''685''))
             True None [],
          Route ''/docs/deployment/docker'' (ComponentCreator ''/docs/deployment/docker'' (Some ''bc6''))
             True None [],
          Route ''/docs/deployment/kubernetes'' (ComponentCreator ''/docs/deployment/kubernetes'' (Some ''3bf''))
             True None [],
          Route ''/docs/deployment/production-setup'' (ComponentCreator ''/docs/deployment/production-setup'' (Some ''e5f''))
             True None [],
          Route ''/docs/development/contributing'' (ComponentCreator ''/docs/development/contributing'' (Some ''98b''))
             True (Some ''tutorialSidebar'') [],
          Route ''/docs/development/local-setup'' (ComponentCreator ''/docs/development/local-setup'' (Some ''7f8''))
             True (Some ''tutorialSidebar'') [],
          Route ''/docs/development/mlops-workflow'' (ComponentCreator ''/docs/development/mlops-workflow'' (Some ''532''))
             True (Some ''tutorialSidebar'') [],
          Route ''/docs/getting-started/overview'' (ComponentCreator ''/docs/getting-started/overview'' (Some ''3b4''))
             True (Some ''tutorialSidebar'') [],
          Route ''/docs/getting-started/quick-start'' (ComponentCreator ''/docs/getting-started/quick-start'' (Some ''09c''))
             True (Some ''tutorialSidebar'') [],
          Route ''/docs/repositories/mlops-helm-charts'' (ComponentCreator ''/docs/repositories/mlops-helm-charts'' (Some ''bdc''))
             True None [],
          Route ''/docs/repositories/mlops-platform'' (ComponentCreator ''/docs/repositories/mlops-platform'' (Some ''3c7''))
             True (Some ''tutorialSidebar'') [],
          Route ''/docs/repositories/mlops-research-template'' (ComponentCreator ''/docs/repositories/mlops-research-template'' (Some ''673''))
             True None [],
          Route ''/docs/repositories/overview'' (ComponentCreator ''/docs/repositories/overview'' (Some ''16f''))
             True (Some ''tutorialSidebar'') [],
          Route ''/docs/researcher-guide/best-practices'' (ComponentCreator ''/docs/researcher-guide/best-practices'' (Some ''316''))
             True (Some ''tutorialSidebar'') [],
          Route ''/docs/researcher-guide/overview'' (ComponentCreator ''/docs/researcher-guide/overview'' (Some ''957''))
             True (Some ''tutorialSidebar'') [],
          Route ''/docs/researcher-guide/setup'' (ComponentCreator ''/docs/researcher-guide/setup'' (Some ''70f''))
             True (Some ''tutorialSidebar'') [],
          Route ''/docs/researcher-guide/tracking-experiments'' (ComponentCreator ''/docs/researcher-guide/tracking-experiments'' (Some ''557''))
             True (Some ''tutorialSidebar'') [],
          Route ''/docs/researcher-guide/training'' (ComponentCreator ''/docs/researcher-guide/training'' (Some ''3f2''))
             True (Some ''tutorialSidebar'') [],
          Route ''/docs/tools/argocd'' (ComponentCreator ''/docs/tools/argocd'' (Some ''75e''))
             True (Some ''tutorialSidebar'') [],
          Route ''/docs/tools/cassandra'' (ComponentCreator ''/docs/tools/cassandra'' (Some ''05a''))
             True (Some ''tutorialSidebar'') [],
          Route ''/docs/tools/cicd'' (ComponentCreator ''/docs/tools/cicd'' (Some ''e47''))
             True (Some ''tutorialSidebar'') [],
          Route ''/docs/tools/databases'' (ComponentCreator ''/docs/tools/databases'' (Some ''b2b''))
             True None [],
          Route ''/docs/tools/db-overview'' (ComponentCreator ''/docs/tools/db-overview'' (Some ''231''))
             True (Some ''tutorialSidebar'') [],
          Route ''/docs/tools/docker'' (ComponentCreator ''/docs/tools/docker'' (Some ''83a''))
             True (Some ''tutorialSidebar'') [],
          Route ''/docs/tools/dynamodb'' (ComponentCreator ''/docs/tools/dynamodb'' (Some ''033''))
             True (Some ''tutorialSidebar'') [],
          Route ''/docs/tools/gpu-scheduling'' (ComponentCreator ''/docs/tools/gpu-scheduling'' (Some ''e8d''))
             True (Some ''tutorialSidebar'') [],
          Route ''/docs/tools/helm'' (ComponentCreator ''/docs/tools/helm'' (Some ''a79''))
             True (Some ''tutorialSidebar'') [],
          Route ''/docs/tools/influxdb'' (ComponentCreator ''/docs/tools/influxdb'' (Some ''f2d''))
             True (Some ''tutorialSidebar'') [],
          Route ''/docs/tools/kubernetes'' (ComponentCreator ''/docs/tools/kubernetes'' (Some ''6b6''))
             True (Some ''tutorialSidebar'') [],
          Route ''/docs/tools/memcached'' (ComponentCreator ''/docs/tools/memcached'' (Some ''83f''))
             True (Some ''tutorialSidebar'') [],
          Route ''/docs/tools/message-queues'' (ComponentCreator ''/docs/tools/message-queues'' (Some ''89a''))
             True (Some ''tutorialSidebar'') [],
          Route ''/docs/tools/minio'' (ComponentCreator ''/docs/tools/minio'' (Some ''1d1''))
             True (Some ''tutorialSidebar'') [],
          Route ''/docs/tools/mlflow'' (ComponentCreator ''/docs/tools/mlflow'' (Some ''a7c''))
             True (Some ''tutorialSidebar'') [],
          Route ''/docs/tools/mongodb'' (ComponentCreator ''/docs/tools/mongodb'' (Some ''01a''))
             True (Some ''tutorialSidebar'') [],
          Route ''/docs/tools/monitoring'' (ComponentCreator ''/docs/tools/monitoring'' (Some ''ece''))
             True (Some ''tutorialSidebar'') [],
          Route ''/docs/tools/mysql'' (ComponentCreator ''/docs/tools/mysql'' (Some ''856''))
             True (Some ''tutorialSidebar'') [],
          Route ''/docs/tools/overview'' (ComponentCreator ''/docs/tools/overview'' (Some ''efb''))
             True (Some ''tutorialSidebar'') [],
          Route ''/docs/tools/postgres'' (ComponentCreator ''/docs/tools/postgres'' (Some ''f58''))
             True (Some ''tutorialSidebar'') [],
          Route ''/docs/tools/prometheus'' (ComponentCreator ''/docs/tools/prometheus'' (Some ''8e3''))
             True (Some ''tutorialSidebar'') [],
          Route ''/docs/tools/redis'' (ComponentCreator ''/docs/tools/redis'' (Some ''d33''))
             True (Some ''tutorialSidebar'') []]]],
    Route ''/'' (ComponentCreator ''/'' (Some ''2e1''))
       True None [],
    Route ''*'' (ComponentCreator ''*'' None)
       False None []]"

text \<open>The second route table of \<^verbatim>\<open>src/unnamed/part_000\<close> (lines 276 to 473), generated
  with the debug plugin's routes.\<close>

definition routes_part_000_b :: "route list" where
  "routes_part_000_b = [
    Route ''/__docusaurus/debug'' (ComponentCreator ''/__docusaurus/debug'' (Some ''5ff''))
       True None [],
    Route ''/__docusaurus/debug/config'' (ComponentCreator ''/__docusaurus/debug/config'' (Some ''5ba''))
       True None [],
    Route ''/__docusaurus/debug/content'' (ComponentCreator ''/__docusaurus/debug/content'' (Some ''a2b''))
       True None [],
    Route ''/__docusaurus/debug/globalData'' (ComponentCreator ''/__docusaurus/debug/globalData'' (Some ''c3c''))
       True None [],
    Route ''/__docusaurus/debug/metadata'' (ComponentCreator ''/__docusaurus/debug/metadata'' (Some ''156''))
       True None [],
    Route ''/__docusaurus/debug/registry'' (ComponentCreator ''/__docusaurus/debug/registry'' (Some ''88c''))
       True None [],
    Route ''/__docusaurus/debug/routes'' (ComponentCreator ''/__docusaurus/debug/routes'' (Some ''000''))
       True None [],
    Route ''/docs'' (ComponentCreator ''/docs'' (Some ''68d''))
       False None [
      Route ''/docs'' (ComponentCreator ''/docs'' (Some ''ec3''))
         False None [
        Route ''/docs'' (ComponentCreator ''/docs'' (Some ''bb2''))
           False None [
          Route ''/docs/architecture/components'' (ComponentCreator ''/docs/architecture/components'' (Some ''123''))
             True None [],
          Route ''/docs/architecture/data-flow'' (ComponentCreator ''/docs/architecture/data-flow'' (Some ''d38''))
             True None [],
          Route ''/docs/architecture/overview'' (ComponentCreator ''/docs/architecture/overview'' (Some ''685''))
             True None [],
          Route ''/docs/deployment/docker'' (ComponentCreator ''/docs/deployment/docker'' (Some ''bc6''))
             True None [],
          Route ''/docs/deployment/kubernetes'' (ComponentCreator ''/docs/deployment/kubernetes'' (Some ''3bf''))
             True None [],
          Route ''/docs/deployment/production-setup'' (ComponentCreator ''/docs/deployment/production-setup'' (Some ''e5f''))
             True None [],
          Route ''/docs/development/contributing'' (ComponentCreator ''/docs/development/contributing'' (Some ''582''))
             True None [],
          Route ''/docs/development/local-setup'' (ComponentCreator ''/docs/development/local-setup'' (Some ''cba''))
             True None [],
          Route ''/docs/getting-started/overview'' (ComponentCreator ''/docs/getting-started/overview'' (Some ''3b4''))
             True (Some ''tutorialSidebar'') [],
          Route ''/docs/getting-started/quick-start'' (ComponentCreator ''/docs/getting-started/quick-start'' (Some ''09c''))
             True (Some ''tutorialSidebar'') [],
          Route ''/docs/repositories/mlops-helm-charts'' (ComponentCreator ''/docs/repositories/mlops-helm-charts'' (Some ''bdc''))
             True None [],
          Route ''/docs/repositories/mlops-platform'' (ComponentCreator ''/docs/repositories/mlops-platform'' (Some ''3c7''))
             True (Some ''tutorialSidebar'') [],
          Route ''/docs/repositories/mlops-research-template'' (ComponentCreator ''/docs/repositories/mlops-research-template'' (Some ''673''))
             True None [],
          Route ''/docs/repositories/overview'' (ComponentCreator ''/docs/repositories/overview'' (Some ''16f''))
             True (Some ''tutorialSidebar'') [],
          Route ''/docs/researcher-guide/best-practices'' (ComponentCreator ''/docs/researcher-guide/best-practices'' (Some ''4af''))
             True None [],
          Route ''/docs/researcher-guide/overview'' (ComponentCreator ''/docs/researcher-guide/overview'' (Some ''93d''))
             True None [],
          Route ''/docs/researcher-guide/setup'' (ComponentCreator ''/docs/researcher-guide/setup'' (Some ''4e4''))
             True None [],
          Route ''/docs/researcher-guide/tracking-experiments'' (ComponentCreator ''/docs/researcher-guide/tracking-experiments'' (Some ''d43''))
             True None [],
          Route ''/docs/researcher-guide/training'' (ComponentCreator ''/docs/researcher-guide/training'' (Some ''e0d''))
             True None [],
          Route ''/docs/tools/docker'' (ComponentCreator ''/docs/tools/docker'' (Some ''1b7''))
             True None [],
          Route ''/docs/tools/kubernetes'' (ComponentCreator ''/docs/tools/kubernetes'' (Some ''824''))
             True None [],
          Route ''/docs/tools/minio'' (ComponentCreator ''/docs/tools/minio'' (Some ''c80''))
             True None [],
          Route ''/docs/tools/mlflow'' (ComponentCreator ''/docs/tools/mlflow'' (Some ''a7c''))
             True (Some ''tutorialSidebar'') [],
          Route ''/docs/tools/overview'' (ComponentCreator ''/docs/tools/overview'' (Some ''efb''))
             True (Some ''tutorialSidebar'') [],
          Route ''/docs/tools/postgres'' (ComponentCreator ''/docs/tools/postgres'' (Some ''e44''))
             True None []]]],
    Route ''/'' (ComponentCreator ''/'' (Some ''2e1''))
       True None [],
    Route ''*'' (ComponentCreator ''*'' None)
       False None []]"

text \<open>The route table of \<^verbatim>\<open>src/unnamed/part_001\<close>.\<close>

definition routes_part_001 :: "route list" where
  "routes_part_001 = [
    Route ''/docs'' (ComponentCreator ''/docs'' (Some ''6b8''))
       False None [
      Route ''/docs'' (ComponentCreator ''/docs'' (Some ''aef''))
         False None [
        Route ''/docs'' (ComponentCreator ''/docs'' (Some ''981''))
           False None [
          Route ''/docs/architecture/components'' (ComponentCreator ''/docs/architecture/components'' (Some ''123''))
             True None [],
          Route ''/docs/architecture/data-flow'' (ComponentCreator ''/docs/architecture/data-flow'' (Some ''d38''))
             True None [],
          Route ''/docs/architecture/overview'' (ComponentCreator ''/docs/architecture/overview'' (Some ''685''))
             True None [],
          Route ''/docs/deployment/docker'' (ComponentCreator ''/docs/deployment/docker'' (Some ''bc6''))
             True None [],
          Route ''/docs/deployment/kubernetes'' (ComponentCreator ''/docs/deployment/kubernetes'' (Some ''3bf''))
             True None [],
          Route ''/docs/deployment/production-setup'' (ComponentCreator ''/docs/deployment/production-setup'' (Some ''e5f''))
             True None [],
          Route ''/docs/development/contributing'' (ComponentCreator ''/docs/development/contributing'' (Some ''98b''))
             True (Some ''tutorialSidebar'') [],
          Route ''/docs/development/local-setup'' (ComponentCreator ''/docs/development/local-setup'' (Some ''7f8''))
             True (Some ''tutorialSidebar'') [],
          Route ''/docs/development/mlops-workflow'' (ComponentCreator ''/docs/development/mlops-workflow'' (Some ''532''))
             True (Some ''tutorialSidebar'') [],
          Route ''/docs/getting-started/overview'' (ComponentCreator ''/docs/getting-started/overview'' (Some ''3b4''))
             True (Some ''tutorialSidebar'') [],
          Route ''/docs/getting-started/quick-start'' (ComponentCreator ''/docs/getting-started/quick-start'' (Some ''09c''))
             True (Some ''tutorialSidebar'') [],
          Route ''/docs/repositories/mlops-helm-charts'' (ComponentCreator ''/docs/repositories/mlops-helm-charts'' (Some ''bdc''))
             True None [],
          Route ''/docs/repositories/mlops-platform'' (ComponentCreator ''/docs/repositories/mlops-platform'' (Some ''3c7''))
             True (Some ''tutorialSidebar'') [],
          Route ''/docs/repositories/mlops-research-template'' (ComponentCreator ''/docs/repositories/mlops-research-template'' (Some ''673''))
             True None [],
          Route ''/docs/repositories/overview'' (ComponentCreator ''/docs/repositories/overview'' (Some ''16f''))
             True (Some ''tutorialSidebar'') [],
          Route ''/docs/researcher-guide/best-practices'' (ComponentCreator ''/docs/researcher-guide/best-practices'' (Some ''316''))
             True (Some ''tutorialSidebar'') [],
          Route ''/docs/researcher-guide/overview'' (ComponentCreator ''/docs/researcher-guide/overview'' (Some ''957''))
             True (Some ''tutorialSidebar'') [],
          Route ''/docs/researcher-guide/setup'' (ComponentCreator ''/docs/researcher-guide/setup'' (Some ''70f''))
             True (Some ''tutorialSidebar'') [],
          Route ''/docs/researcher-guide/tracking-experiments'' (ComponentCreator ''/docs/researcher-guide/tracking-experiments'' (Some ''557''))
             True (Some ''tutorialSidebar'') [],
          Route ''/docs/researcher-guide/training'' (ComponentCreator ''/docs/researcher-guide/training'' (Some ''3f2''))
             True (Some ''tutorialSidebar'') [],
          Route ''/docs/tools/databases'' (ComponentCreator ''/docs/tools/databases'' (Some ''2d0''))
             True (Some ''tutorialSidebar'') [],
          Route ''/docs/tools/docker'' (ComponentCreator ''/docs/tools/docker'' (Some ''83a''))
             True (Some ''tutorialSidebar'') [],
          Route ''/docs/tools/kubernetes'' (ComponentCreator ''/docs/tools/kubernetes'' (Some ''6b6''))
             True (Some ''tutorialSidebar'') [],
          Route ''/docs/tools/message-queues'' (ComponentCreator ''/docs/tools/message-queues'' (Some ''89a''))
             True (Some ''tutorialSidebar'') [],
          Route ''/docs/tools/minio'' (ComponentCreator ''/docs/tools/minio'' (Some ''1d1''))
             True (Some ''tutorialSidebar'') [],
          Route ''/docs/tools/mlflow'' (ComponentCreator ''/docs/tools/mlflow'' (Some ''a7c''))
             True (Some ''tutorialSidebar'') [],
          Route ''/docs/tools/overview'' (ComponentCreator ''/docs/tools/overview'' (Some ''efb''))
             True (Some ''tutorialSidebar'') [],
          Route ''/docs/tools/postgres'' (ComponentCreator ''/docs/tools/postgres'' (Some ''f58''))
             True (Some ''tutorialSidebar'') []]]],
    Route ''/'' (ComponentCreator ''/'' (Some ''2e1''))
       True None [],
    Route ''*'' (ComponentCreator ''*'' None)
       False None []]"

section \<open>The committed sidebar configurations\<close>

text \<open>\<^verbatim>\<open>sidebars.tutorialSidebar\<close> of \<^verbatim>\<open>src/sidebars.js\<close>.\<close>

definition sidebars_js :: "sidebar_item list" where
  "sidebars_js = [
    Doc ''getting-started/overview'',
    Doc ''getting-started/quick-start'',
    Doc ''repositories/overview'',
    Doc ''repositories/mlops-platform'',
    Doc ''tools/overview'',
    Doc ''tools/mlflow'']"

text \<open>\<^verbatim>\<open>sidebars.tutorialSidebar\<close> of \<^verbatim>\<open>src/unnamed/part_015\<close> (lines 430 to 504).\<close>

definition sidebars_part_015 :: "sidebar_item list" where
  "sidebars_part_015 = [
    Doc ''getting-started/overview'',
    Doc ''getting-started/quick-start'',
    Doc ''repositories/overview'',
    Doc ''repositories/mlops-platform'',
    Category ''Researcher Guide'' False [
      Doc ''researcher-guide/overview'',
      Doc ''researcher-guide/setup'',
      Doc ''researcher-guide/training'',
      Doc ''researcher-guide/tracking-experiments'',
      Doc ''researcher-guide/best-practices''],
    Category ''Development'' False [
      Doc ''development/mlops-workflow'',
      Doc ''development/local-setup'',
      Doc ''development/contributing''],
    Category ''Tools & Infrastructure'' False [
      Doc ''tools/overview'',
      Category ''Machine Learning Tools'' True [
        Doc ''tools/mlflow''],
      Category ''Infrastructure & Orchestration'' True [
        Doc ''tools/docker'',
        Doc ''tools/kubernetes''],
      Category ''Data Management'' True [
        Doc ''tools/minio'',
        Doc ''tools/postgres'',
        Doc ''tools/databases''],
      Category ''Message Queues & Event Streaming'' True [
        Doc ''tools/message-queues'']]]"

text \<open>\<^verbatim>\<open>sidebars.tutorialSidebar\<close> of \<^verbatim>\<open>src/unnamed/part_016\<close>.\<close>

definition sidebars_part_016 :: "sidebar_item list" where
  "sidebars_part_016 = [
    Doc ''getting-started/overview'',
    Doc ''getting-started/quick-start'',
    Doc ''repositories/overview'',
    Doc ''repositories/mlops-platform'',
    Category ''Researcher Guide'' False [
      Doc ''researcher-guide/overview'',
      Doc ''researcher-guide/setup'',
      Doc ''researcher-guide/training'',
      Doc ''researcher-guide/tracking-experiments'',
      Doc ''researcher-guide/best-practices''],
    Category ''Development'' False [
      Doc ''development/mlops-workflow'',
      Doc ''development/local-setup'',
      Doc ''development/contributing''],
    Category ''Tools & Infrastructure'' False [
      Doc ''tools/overview'',
      Category ''Machine Learning Tools'' True [
        Doc ''tools/mlflow''],
      Category ''Infrastructure & Orchestration'' True [
        Doc ''tools/docker'',
        Doc ''tools/kubernetes'',
        Doc ''tools/helm'',
        Doc ''tools/argocd''],
      Category ''GPU Scheduling'' True [
        Doc ''tools/gpu-scheduling''],
      Category ''Object Storage'' True [
        Doc ''tools/minio''],
      Category ''Databases'' True [
        Doc ''tools/db-overview'',
        Category ''SQL Databases'' True [
          Doc ''tools/postgres'',
          Doc ''tools/mysql''],
        Category ''NoSQL Databases'' True [
          Doc ''tools/mongodb'',
          Doc ''tools/cassandra'',
          Doc ''tools/dynamodb''],
        Category ''Caching Layer'' True [
          Doc ''tools/redis'',
          Doc ''tools/memcached''],
        Category ''Time-Series Databases'' True [
          Doc ''tools/influxdb'',
          Doc ''tools/prometheus'']],
      Category ''Message Queues & Event Streaming'' True [
        Doc ''tools/message-queues''],
      Category ''Monitoring & Observability'' True [
        Doc ''tools/monitoring''],
      Category ''CI/CD Pipelines'' True [
        Doc ''tools/cicd'']]]"

section \<open>Invariants of a route table\<close>

text \<open>
  All entries of a table, at every nesting level, each parent before its children.
\<close>

fun entries_of :: "route \<Rightarrow> route list" where
  "entries_of (Route p c e s rs) = Route p c e s rs # concat (map entries_of rs)"

definition all_entries :: "route list \<Rightarrow> route list" where
  "all_entries rs = concat (map entries_of rs)"

definition all_paths :: "route list \<Rightarrow> string list" where
  "all_paths rs = map path (all_entries rs)"

text \<open>How often a path occurs among the entries of one nesting level.\<close>

definition occurrences :: "string \<Rightarrow> route list \<Rightarrow> nat" where
  "occurrences p rs = length (filter (\<lambda>r. path r = p) rs)"

text \<open>
  The root entry and the catch-all entry each occur once at the top level, and the
  catch-all entry is the last of the top-level entries.
\<close>

definition root_and_fallback_once :: "route list \<Rightarrow> bool" where
  "root_and_fallback_once rs =
     (occurrences ''/'' rs = 1 \<and> occurrences ''*'' rs = 1 \<and>
      rs \<noteq> [] \<and> path (last rs) = ''*'')"


text \<open>Every entry marked exact has no child routes.\<close>

definition exact_leaves :: "route list \<Rightarrow> bool" where
  "exact_leaves rs = list_all (\<lambda>r. exact r \<longrightarrow> routes r = []) (all_entries rs)"

text \<open>
  Every entry with a sidebar reference is an exact entry without child routes; so an
  entry that has child routes carries no sidebar reference.
\<close>

definition sidebar_on_leaves :: "route list \<Rightarrow> bool" where
  "sidebar_on_leaves rs =
     list_all (\<lambda>r. sidebar r \<noteq> None \<longrightarrow> exact r \<and> routes r = []) (all_entries rs)"

text \<open>The path of every child entry starts with the path of its parent entry.\<close>

definition nested_by_prefix :: "route list \<Rightarrow> bool" where
  "nested_by_prefix rs =
     list_all (\<lambda>r. list_all (\<lambda>c. prefix (path r) (path c)) (routes r)) (all_entries rs)"

text \<open>The page identifiers a sidebar refers to, in declaration order.\<close>

fun leaf_ids :: "sidebar_item \<Rightarrow> string list" where
  "leaf_ids (Doc i) = [i]"
| "leaf_ids (Category l c its) = concat (map leaf_ids its)"

definition sidebar_ids :: "sidebar_item list \<Rightarrow> string list" where
  "sidebar_ids its = concat (map leaf_ids its)"

text \<open>
  The docs plugin is mounted at \<^verbatim>\<open>/docs\<close> (the preset's default route base path), so the
  page \<^verbatim>\<open>tools/mlflow\<close> is served by the route \<^verbatim>\<open>/docs/tools/mlflow\<close>.
\<close>

definition doc_route :: "string \<Rightarrow> string" where
  "doc_route i = ''/docs/'' @ i"

text \<open>
  The page identifiers known to a route table: the paths under \<^verbatim>\<open>/docs/\<close>, without that
  prefix.
\<close>

definition page_ids :: "route list \<Rightarrow> string list" where
  "page_ids rs = map (drop 6) (filter (prefix ''/docs/'') (all_paths rs))"

section \<open>The route registry builder\<close>

text \<open>
  Modelled from the spec: the input of \<^verbatim>\<open>buildRoutes\<close>, which is not part of the
  repository's sources (the route tables above are generated by the documentation
  framework). A document has a logical path and an optional parent path.
\<close>

datatype document = Document (doc_path: string) (doc_parent: "string option")

text \<open>
  Modelled from the spec: the two fatal errors of \<^verbatim>\<open>buildRoutes\<close>, each identifying an
  offending path.
\<close>

datatype build_error = DuplicatePathError string | OrphanedChildError string

text \<open>
  Modelled from the spec: the check behind \<^verbatim>\<open>DuplicatePathError\<close>, raised when two
  documents declare the same path. The result lists every path that is declared again
  later in the sequence.
\<close>

fun duplicate_paths :: "string list \<Rightarrow> string list" where
  "duplicate_paths [] = []"
| "duplicate_paths (p # ps) =
     (if p \<in> set ps then p # duplicate_paths ps else duplicate_paths ps)"

text \<open>
  Modelled from the spec: the check behind \<^verbatim>\<open>OrphanedChildError\<close>, raised when a
  document declares a parent path that no document of the set has. \<open>known\<close> holds the
  paths of the whole document set; the result lists the path of every such document.
\<close>

definition is_orphan :: "string list \<Rightarrow> document \<Rightarrow> bool" where
  "is_orphan known d = (case doc_parent d of None \<Rightarrow> False | Some q \<Rightarrow> q \<notin> set known)"

text \<open>
  Modelled from the spec: the paths of the documents whose declared parent is missing,
  in input order.
\<close>

definition orphan_paths :: "document list \<Rightarrow> string list" where
  "orphan_paths docs = map doc_path (filter (is_orphan (map doc_path docs)) docs)"

text \<open>
  Modelled from the spec: a document without a parent that declares the path \<^verbatim>\<open>*\<close>. The
  spec appends the fallback entry to every registry (section 4.1) and lets the catch-all
  path occur exactly once among the top-level entries of every registry (sections 3 and
  4.1), so such a document claims the route path of the fallback entry a second time.
\<close>

definition declares_fallback :: "document list \<Rightarrow> bool" where
  "declares_fallback docs = list_ex (\<lambda>d. doc_parent d = None \<and> doc_path d = ''*'') docs"

text \<open>
  Modelled from the spec: the path reported for such a document. It is reported with
  \<^verbatim>\<open>DuplicatePathError\<close>, the spec's error for a route path that is claimed twice.
\<close>

definition fallback_clash :: "document list \<Rightarrow> string list" where
  "fallback_clash docs = (if declares_fallback docs then [''*''] else [])"

text \<open>
  Modelled from the spec: all defects of a document sequence. Each error condition of
  the spec leads to its error whatever else is wrong with the sequence, so the failure
  lists every defect found: the duplicates first, then the orphans.
\<close>

definition build_errors :: "document list \<Rightarrow> build_error list" where
  "build_errors docs =
     map DuplicatePathError (duplicate_paths (map doc_path docs) @ fallback_clash docs) @
     map OrphanedChildError (orphan_paths docs)"

text \<open>
  Modelled from the spec: the route entry of one document. The component reference is
  opaque; an entry is exact when it has no children, and otherwise acts as a prefix for
  its nested routes. Documents carry no sidebar association.
\<close>

definition entry_for :: "document \<Rightarrow> route list \<Rightarrow> route" where
  "entry_for d kids =
     Route (doc_path d) (ComponentCreator (doc_path d) None) (kids = []) None kids"

text \<open>
  Modelled from the spec: the nesting step of \<^verbatim>\<open>buildRoutes\<close>. The entries under the
  parent \<open>par\<close> are the documents that declare \<open>par\<close>, in the order of the input sequence,
  each with its own children nested below it. The first argument bounds the nesting
  depth; \<^verbatim>\<open>buildRoutes\<close> passes the number of documents, and with pairwise distinct
  paths a larger bound gives the same entries (lemma \<open>top_entries_fuel\<close> below).
\<close>

fun nest :: "nat \<Rightarrow> document list \<Rightarrow> string option \<Rightarrow> route list" where
  "nest 0 docs par = []"
| "nest (Suc n) docs par =
     map (\<lambda>d. entry_for d (nest n docs (Some (doc_path d))))
         (filter (\<lambda>d. doc_parent d = par) docs)"

text \<open>
  Modelled from the spec: the top-level entries of the registry, one for each document
  without a parent.
\<close>

definition top_entries :: "document list \<Rightarrow> route list" where
  "top_entries docs = nest (length docs) docs None"

text \<open>
  Modelled from the spec: the fallback entry, which is appended last. As in the committed
  route tables it is not marked exact and has neither a sidebar nor child routes.
\<close>

definition fallback_entry :: route where
  "fallback_entry = Route ''*'' (ComponentCreator ''*'' None) False None []"

text \<open>
  Modelled from the spec: \<^verbatim>\<open>buildRoutes(documents)\<close>, absent from the repository's
  sources. It fails when the sequence has a defect, and the failure is a value without a
  registry. Otherwise it returns one entry per document, nested under its parent, in
  input order, with the fallback entry appended last; for the two documents of the
  spec's first example scenario these are the entries for \<^verbatim>\<open>/docs/a\<close>, \<^verbatim>\<open>/docs/b\<close> and
  \<^verbatim>\<open>*\<close>, in that order. No root entry is made up: the entry for \<^verbatim>\<open>/\<close> is the entry of the
  document that declares that path.
\<close>

definition buildRoutes :: "document list \<Rightarrow> build_error list + route list" where
  "buildRoutes docs =
     (if build_errors docs = [] then Inr (top_entries docs @ [fallback_entry])
      else Inl (build_errors docs))"

text \<open>The two defects of a document sequence that the spec names.\<close>

definition has_duplicate :: "document list \<Rightarrow> bool" where
  "has_duplicate docs = (\<not> distinct (map doc_path docs))"

definition has_orphan :: "document list \<Rightarrow> bool" where
  "has_orphan docs = list_ex (is_orphan (map doc_path docs)) docs"

text \<open>
  A chain of documents below the parent \<open>par\<close>: the first document declares \<open>par\<close>, and
  every later one declares the path of the document before it.
\<close>

fun chain_from :: "string option \<Rightarrow> document list \<Rightarrow> bool" where
  "chain_from par [] = True"
| "chain_from par (d # ds) = (doc_parent d = par \<and> chain_from (Some (doc_path d)) ds)"

text \<open>
  Sibling entries follow the input order: the paths of the children of every entry, read
  left to right, form a subsequence of the paths of the input documents.
\<close>

definition children_in_input_order :: "document list \<Rightarrow> route list \<Rightarrow> bool" where
  "children_in_input_order docs rs =
     list_all (\<lambda>r. subseq (map path (routes r)) (map doc_path docs)) (all_entries rs)"

section \<open>The sidebar composer\<close>

text \<open>
  Modelled from the spec: the error of \<^verbatim>\<open>composeSidebar\<close>, which is not part of the
  repository's sources; it carries the unknown page identifier.
\<close>

datatype sidebar_error = UnknownPageReferenceError string

text \<open>
  Modelled from the spec: the pass of \<^verbatim>\<open>composeSidebar(tree, knownPages)\<close>, absent from
  the repository's sources. A single pass over the tree in declaration order checks every leaf
  against \<open>knownPages\<close>, stops at the first unknown identifier, and otherwise rebuilds
  each item as it was declared.
\<close>

fun compose_item :: "string set \<Rightarrow> sidebar_item \<Rightarrow> sidebar_error + sidebar_item"
  and compose_items :: "string set \<Rightarrow> sidebar_item list \<Rightarrow> sidebar_error + sidebar_item list"
where
  "compose_item known (Doc i) =
     (if i \<in> known then Inr (Doc i) else Inl (UnknownPageReferenceError i))"
| "compose_item known (Category l c its) =
     (case compose_items known its of
        Inl err \<Rightarrow> Inl err
      | Inr its' \<Rightarrow> Inr (Category l c its'))"
| "compose_items known [] = Inr []"
| "compose_items known (it # its) =
     (case compose_item known it of
        Inl err \<Rightarrow> Inl err
      | Inr it' \<Rightarrow>
          (case compose_items known its of
             Inl err \<Rightarrow> Inl err
           | Inr its' \<Rightarrow> Inr (it' # its')))"

text \<open>
  Modelled from the spec: the operation on a whole sidebar, the ordered sequence of the
  items of \<^verbatim>\<open>tutorialSidebar\<close>.
\<close>

definition composeSidebar :: "sidebar_item list \<Rightarrow> string set \<Rightarrow> sidebar_error + sidebar_item list" where
  "composeSidebar tree knownPages = compose_items knownPages tree"

section \<open>Properties of the builder's checks\<close>

lemma duplicate_paths_empty: "duplicate_paths ps = [] \<longleftrightarrow> distinct ps"
  by (induction ps) auto

lemma orphan_paths_empty: "orphan_paths docs = [] \<longleftrightarrow> \<not> has_orphan docs"
  by (simp add: orphan_paths_def has_orphan_def filter_empty_conv list_ex_iff)

lemma build_errors_empty:
  "build_errors docs = [] \<longleftrightarrow>
     \<not> has_duplicate docs \<and> \<not> declares_fallback docs \<and> \<not> has_orphan docs"
  by (simp add: build_errors_def duplicate_paths_empty orphan_paths_empty
        has_duplicate_def fallback_clash_def)



lemma buildRoutes_success:
  "buildRoutes docs = Inr reg \<longleftrightarrow>
     \<not> has_duplicate docs \<and> \<not> declares_fallback docs \<and> \<not> has_orphan docs \<and>
     reg = top_entries docs @ [fallback_entry]"
  by (auto simp: buildRoutes_def build_errors_empty)

section \<open>Properties of the nesting step\<close>

lemma nest_paths:
  "map path (nest (Suc n) docs par) = map doc_path (filter (\<lambda>d. doc_parent d = par) docs)"
  by (simp add: entry_for_def comp_def)

lemma top_entries_paths:
  "map path (top_entries docs) = map doc_path (filter (\<lambda>d. doc_parent d = None) docs)"
proof (cases docs)
  case Nil
  then show ?thesis by (simp add: top_entries_def)
next
  case (Cons d ds)
  then have "length docs = Suc (length ds)" by simp
  then show ?thesis unfolding top_entries_def by (simp only: nest_paths)
qed


lemma nest_subseq: "subseq (map path (nest n docs par)) (map doc_path docs)"
  by (cases n) (simp_all add: nest_paths subseq_map del: nest.simps(2))

lemma entries_of_entry_for:
  "entries_of (entry_for d kids) = entry_for d kids # all_entries kids"
  by (simp add: entry_for_def all_entries_def)

text \<open>A property of every entry the nesting step can build holds for all entries it returns.\<close>

lemma all_entries_nest:
  assumes "\<And>d m. P (entry_for d (nest m docs (Some (doc_path d))))"
  shows "list_all P (all_entries (nest n docs par))"
proof (induction n arbitrary: par)
  case 0
  show ?case by (simp add: all_entries_def)
next
  case (Suc n)
  have "list_all P (entries_of (entry_for d (nest n docs (Some (doc_path d)))))" for d
    using assms [of d n] Suc.IH [of "Some (doc_path d)"] by (simp add: entries_of_entry_for)
  then show ?case by (simp add: all_entries_def list_all_iff)
qed

lemma all_entries_append: "all_entries (xs @ ys) = all_entries xs @ all_entries ys"
  by (simp add: all_entries_def)

lemma all_entries_fallback: "all_entries [fallback_entry] = [fallback_entry]"
  by (simp add: all_entries_def fallback_entry_def)


lemma fallback_entry_simps:
  "path fallback_entry = ''*''" "routes fallback_entry = []" "\<not> exact fallback_entry"
  by (simp_all add: fallback_entry_def)

section \<open>The nesting bound is large enough\<close>

text \<open>
  Along a chain that starts at a document without a parent, no document occurs twice
  when the paths of the set are pairwise distinct; so a chain is never longer than the
  document sequence.
\<close>

lemma chain_from_snoc:
  "chain_from par (ch @ [d]) \<longleftrightarrow>
     chain_from par ch \<and> doc_parent d = (if ch = [] then par else Some (doc_path (last ch)))"
  by (induction ch arbitrary: par) auto

lemma chain_from_parent:
  "chain_from par ch \<Longrightarrow> e \<in> set ch \<Longrightarrow>
     doc_parent e = par \<or> doc_parent e \<in> Some ` doc_path ` set (butlast ch)"
  by (induction ch arbitrary: par) (auto split: if_splits)

lemma chain_from_distinct:
  assumes dist: "distinct (map doc_path docs)"
  shows "chain_from None ch \<Longrightarrow> set ch \<subseteq> set docs \<Longrightarrow> distinct (map doc_path ch)"
proof (induction ch rule: rev_induct)
  case Nil
  show ?case by simp
next
  case (snoc d ch)
  from snoc.prems have chain: "chain_from None ch" and sub: "set ch \<subseteq> set docs"
    and d: "d \<in> set docs"
    by (simp_all add: chain_from_snoc)
  from snoc.IH [OF chain sub] have IH: "distinct (map doc_path ch)" .
  have "doc_path d \<notin> doc_path ` set ch"
  proof
    assume "doc_path d \<in> doc_path ` set ch"
    then obtain e where e: "e \<in> set ch" and same: "doc_path e = doc_path d" by auto
    from dist have "inj_on doc_path (set docs)" by (simp add: distinct_map)
    with e sub d same have "e = d" by (auto dest: inj_onD)
    with e have mem: "d \<in> set ch" by simp
    then have ne: "ch \<noteq> []" by auto
    with snoc.prems(1) have par: "doc_parent d = Some (doc_path (last ch))"
      by (simp add: chain_from_snoc)
    from chain_from_parent [OF chain mem] par
    have in_front: "doc_path (last ch) \<in> doc_path ` set (butlast ch)" by auto
    from IH have "distinct (map doc_path (butlast ch @ [last ch]))"
      using append_butlast_last_id [OF ne] by simp
    then have "doc_path (last ch) \<notin> doc_path ` set (butlast ch)" by simp
    with in_front show False by simp
  qed
  with IH show ?case by simp
qed

lemma chain_from_length:
  assumes dist: "distinct (map doc_path docs)"
    and chain: "chain_from None ch" and sub: "set ch \<subseteq> set docs"
  shows "length ch \<le> length docs"
proof -
  have d: "distinct (map doc_path ch)" by (rule chain_from_distinct [OF dist chain sub])
  then have "length ch = card (set (map doc_path ch))"
    using distinct_card [OF d] by simp
  also have "\<dots> \<le> card (set (map doc_path docs))"
    using sub by (intro card_mono) auto
  also have "\<dots> \<le> length docs"
    using card_length [of "map doc_path docs"] by simp
  finally show ?thesis .
qed

lemma nest_empty:
  "filter (\<lambda>d. doc_parent d = par) docs = [] \<Longrightarrow> nest n docs par = []"
  by (cases n) simp_all

lemma nest_fuel:
  assumes dist: "distinct (map doc_path docs)"
  shows "chain_from None ch \<Longrightarrow> set ch \<subseteq> set docs \<Longrightarrow> ch \<noteq> [] \<Longrightarrow>
    length docs \<le> length ch + n \<Longrightarrow> length docs \<le> length ch + m \<Longrightarrow>
    nest n docs (Some (doc_path (last ch))) = nest m docs (Some (doc_path (last ch)))"
proof (induction n arbitrary: m ch)
  case 0
  have "filter (\<lambda>d. doc_parent d = Some (doc_path (last ch))) docs = []"
  proof (rule ccontr)
    assume "filter (\<lambda>d. doc_parent d = Some (doc_path (last ch))) docs \<noteq> []"
    then obtain d where d: "d \<in> set docs" "doc_parent d = Some (doc_path (last ch))"
      by (auto simp: filter_empty_conv)
    with "0.prems" have "chain_from None (ch @ [d])" "set (ch @ [d]) \<subseteq> set docs"
      by (simp_all add: chain_from_snoc)
    from chain_from_length [OF dist this] "0.prems"(4) show False by simp
  qed
  then show ?case by (simp add: nest_empty)
next
  case (Suc n)
  show ?case
  proof (cases m)
    case 0
    have "filter (\<lambda>d. doc_parent d = Some (doc_path (last ch))) docs = []"
    proof (rule ccontr)
      assume "filter (\<lambda>d. doc_parent d = Some (doc_path (last ch))) docs \<noteq> []"
      then obtain d where d: "d \<in> set docs" "doc_parent d = Some (doc_path (last ch))"
        by (auto simp: filter_empty_conv)
      with Suc.prems have "chain_from None (ch @ [d])" "set (ch @ [d]) \<subseteq> set docs"
        by (simp_all add: chain_from_snoc)
      from chain_from_length [OF dist this] Suc.prems(5) 0 show False by simp
    qed
    then show ?thesis by (simp add: nest_empty)
  next
    case (Suc m')
    have "nest n docs (Some (doc_path d)) = nest m' docs (Some (doc_path d))"
      if d: "d \<in> set docs" "doc_parent d = Some (doc_path (last ch))" for d
    proof -
      from d Suc.prems have "chain_from None (ch @ [d])" "set (ch @ [d]) \<subseteq> set docs"
        by (simp_all add: chain_from_snoc)
      from Suc.IH [OF this, of m'] Suc.prems(4,5) Suc show ?thesis by simp
    qed
    with Suc show ?thesis by simp
  qed
qed

lemma top_entries_fuel:
  assumes dist: "distinct (map doc_path docs)" and enough: "length docs \<le> n"
  shows "nest n docs None = top_entries docs"
proof (cases docs)
  case Nil
  then show ?thesis by (simp add: top_entries_def nest_empty)
next
  case (Cons x xs)
  with enough obtain n' where n: "n = Suc n'" by (cases n) auto
  have "nest n' docs (Some (doc_path d)) = nest (length xs) docs (Some (doc_path d))"
    if d: "d \<in> set docs" "doc_parent d = None" for d
    using nest_fuel [OF dist, of "[d]" n' "length xs"] d enough n Cons by simp
  with n Cons show ?thesis by (simp add: top_entries_def)
qed

section \<open>Properties of the sidebar pass\<close>

lemma compose_same:
  "compose_item known it = Inr it' \<longrightarrow> it' = it"
  "compose_items known its = Inr its' \<longrightarrow> its' = its"
  by (induction known it and known its arbitrary: it' and its'
        rule: compose_item_compose_items.induct)
     (auto split: sum.splits if_splits)

lemma compose_fail:
  "compose_item known it = Inl (UnknownPageReferenceError i) \<longrightarrow>
     i \<in> set (leaf_ids it) \<and> i \<notin> known"
  "compose_items known its = Inl (UnknownPageReferenceError i) \<longrightarrow>
     i \<in> set (sidebar_ids its) \<and> i \<notin> known"
  by (induction known it and known its rule: compose_item_compose_items.induct)
     (auto simp: sidebar_ids_def split: sum.splits if_splits)

lemma compose_ok:
  "set (leaf_ids it) \<subseteq> known \<longrightarrow> compose_item known it = Inr it"
  "set (sidebar_ids its) \<subseteq> known \<longrightarrow> compose_items known its = Inr its"
  by (induction known it and known its rule: compose_item_compose_items.induct)
     (auto simp: sidebar_ids_def split: sum.splits if_splits)

lemma compose_known:
  "compose_item known it = Inr it' \<longrightarrow> set (leaf_ids it) \<subseteq> known"
  "compose_items known its = Inr its' \<longrightarrow> set (sidebar_ids its) \<subseteq> known"
  by (induction known it and known its arbitrary: it' and its'
        rule: compose_item_compose_items.induct)
     (auto simp: sidebar_ids_def split: sum.splits if_splits)

section \<open>Errors of the registry builder\<close>



section \<open>Referential integrity of the sidebar\<close>

text \<open>
  Claim C2. For every sidebar tree and every set \<open>knownPages\<close>, \<^verbatim>\<open>composeSidebar\<close> fails
  with \<^verbatim>\<open>UnknownPageReferenceError\<close> if and only if some leaf identifier is not in
  \<open>knownPages\<close>; when every leaf identifier is known it returns the tree it was given,
  with the declared order of items and the collapsed flag of every category.
\<close>

theorem composeSidebar_integrity:
  "((\<exists>i. composeSidebar tree knownPages = Inl (UnknownPageReferenceError i)) \<longleftrightarrow>
      (\<exists>i \<in> set (sidebar_ids tree). i \<notin> knownPages)) \<and>
   ((\<forall>i \<in> set (sidebar_ids tree). i \<in> knownPages) \<longrightarrow>
      composeSidebar tree knownPages = Inr tree)"
proof (cases "set (sidebar_ids tree) \<subseteq> knownPages")
  case True
  then have "composeSidebar tree knownPages = Inr tree"
    using compose_ok(2) [of tree knownPages] by (simp add: composeSidebar_def)
  with True show ?thesis by auto
next
  case False
  obtain err where "composeSidebar tree knownPages = Inl err"
  proof (cases "composeSidebar tree knownPages")
    case (Inl err)
    then show ?thesis using that by blast
  next
    case (Inr out)
    with False show ?thesis
      using compose_known(2) [of knownPages tree out] by (simp add: composeSidebar_def)
  qed
  then have "\<exists>i. composeSidebar tree knownPages = Inl (UnknownPageReferenceError i)"
    by (cases err) simp
  with False show ?thesis by auto
qed

text \<open>
  The spec's third example scenario fails on \<^verbatim>\<open>docs/missing\<close>; the nested sidebar of
  \<^verbatim>\<open>src/unnamed/part_015\<close> is returned unchanged for the pages of the route table of
  \<^verbatim>\<open>src/unnamed/part_001\<close>.
\<close>

theorem composeSidebar_integrity_witness:
  "(\<exists>i \<in> set (sidebar_ids [Doc ''docs/a'', Doc ''docs/missing'']). i \<notin> {''docs/a''}) \<and>
   composeSidebar [Doc ''docs/a'', Doc ''docs/missing''] {''docs/a''}
     = Inl (UnknownPageReferenceError ''docs/missing'') \<and>
   set (sidebar_ids sidebars_part_015) \<subseteq> set (page_ids routes_part_001) \<and>
   composeSidebar sidebars_part_015 (set (page_ids routes_part_001)) = Inr sidebars_part_015"
proof -
  have known: "set (sidebar_ids sidebars_part_015) \<subseteq> set (page_ids routes_part_001)"
    by (simp add: sidebar_ids_def sidebars_part_015_def page_ids_def all_paths_def
          all_entries_def routes_part_001_def)
  have "composeSidebar sidebars_part_015 (set (page_ids routes_part_001)) = Inr sidebars_part_015"
    using composeSidebar_integrity [of sidebars_part_015 "set (page_ids routes_part_001)"] known
    by blast
  moreover have "composeSidebar [Doc ''docs/a'', Doc ''docs/missing''] {''docs/a''}
     = Inl (UnknownPageReferenceError ''docs/missing'')"
    by (simp add: composeSidebar_def)
  ultimately show ?thesis using known by (simp add: sidebar_ids_def)
qed

section \<open>Unique sibling paths\<close>



section \<open>Order of siblings\<close>

text \<open>
  Claim C5. In the registry that \<^verbatim>\<open>buildRoutes\<close> returns, the top-level entries are the
  documents without a parent, in the order of the input sequence, followed by the
  appended fallback entry; and the children of every entry appear in the order of the
  input sequence. A sidebar that \<^verbatim>\<open>composeSidebar\<close> returns is the sidebar it
  was given, so its siblings keep their declared order. Neither operation sorts.
\<close>

theorem sibling_order_preserved:
  "(buildRoutes docs = Inr reg \<longrightarrow>
      map path reg = map doc_path (filter (\<lambda>d. doc_parent d = None) docs) @ [''*''] \<and>
      children_in_input_order docs reg) \<and>
   (composeSidebar tree knownPages = Inr out \<longrightarrow> out = tree)"
proof -
  have built: "map path reg = map doc_path (filter (\<lambda>d. doc_parent d = None) docs) @ [''*''] \<and>
      children_in_input_order docs reg"
    if ok: "buildRoutes docs = Inr reg"
  proof -
    let ?top = "top_entries docs"
    from ok have reg: "reg = ?top @ [fallback_entry]"
      by (simp add: buildRoutes_success)
    have top: "map path reg = map doc_path (filter (\<lambda>d. doc_parent d = None) docs) @ [''*'']"
      unfolding reg by (simp add: top_entries_paths fallback_entry_simps)
    have "list_all (\<lambda>r. subseq (map path (routes r)) (map doc_path docs)) (all_entries ?top)"
      unfolding top_entries_def
      by (rule all_entries_nest) (simp add: entry_for_def nest_subseq)
    then have "children_in_input_order docs reg"
      unfolding children_in_input_order_def reg all_entries_append all_entries_fallback
      by (simp add: fallback_entry_simps)
    with top show ?thesis by simp
  qed
  have "out = tree" if "composeSidebar tree knownPages = Inr out"
    using that compose_same(2) [of knownPages tree out] by (simp add: composeSidebar_def)
  with built show ?thesis by blast
qed

text \<open>
  The documents of the builder's input are not in alphabetical order, and neither are
  the entries of the output; the sidebar of \<^verbatim>\<open>src/sidebars.js\<close> is returned as declared.
\<close>

theorem sibling_order_preserved_witness:
  "buildRoutes [Document ''/docs'' None, Document ''/docs/b'' (Some ''/docs''),
                Document ''/about'' None, Document ''/docs/a'' (Some ''/docs'')]
     = Inr [Route ''/docs'' (ComponentCreator ''/docs'' None) False None
              [Route ''/docs/b'' (ComponentCreator ''/docs/b'' None) True None [],
               Route ''/docs/a'' (ComponentCreator ''/docs/a'' None) True None []],
            Route ''/about'' (ComponentCreator ''/about'' None) True None [],
            Route ''*'' (ComponentCreator ''*'' None) False None []] \<and>
   children_in_input_order
     [Document ''/docs'' None, Document ''/docs/b'' (Some ''/docs''),
      Document ''/about'' None, Document ''/docs/a'' (Some ''/docs'')]
     [Route ''/docs'' (ComponentCreator ''/docs'' None) False None
        [Route ''/docs/b'' (ComponentCreator ''/docs/b'' None) True None [],
         Route ''/docs/a'' (ComponentCreator ''/docs/a'' None) True None []],
      Route ''/about'' (ComponentCreator ''/about'' None) True None [],
      Route ''*'' (ComponentCreator ''*'' None) False None []] \<and>
   composeSidebar sidebars_js (set (page_ids routes_part_000_b)) = Inr sidebars_js"
proof -
  let ?docs = "[Document ''/docs'' None, Document ''/docs/b'' (Some ''/docs''),
                Document ''/about'' None, Document ''/docs/a'' (Some ''/docs'')]"
  let ?reg = "[Route ''/docs'' (ComponentCreator ''/docs'' None) False None
        [Route ''/docs/b'' (ComponentCreator ''/docs/b'' None) True None [],
         Route ''/docs/a'' (ComponentCreator ''/docs/a'' None) True None []],
      Route ''/about'' (ComponentCreator ''/about'' None) True None [],
      Route ''*'' (ComponentCreator ''*'' None) False None []]"
  have built: "buildRoutes ?docs = Inr ?reg"
    by (simp add: buildRoutes_def build_errors_def orphan_paths_def is_orphan_def
          fallback_clash_def declares_fallback_def top_entries_def entry_for_def
          fallback_entry_def)
  have side: "composeSidebar sidebars_js (set (page_ids routes_part_000_b)) = Inr sidebars_js"
    by (simp add: composeSidebar_def sidebars_js_def page_ids_def all_paths_def
          all_entries_def routes_part_000_b_def)
  from built side show ?thesis
    using sibling_order_preserved [of ?docs ?reg] by blast
qed

section \<open>Exact entries are leaves\<close>

text \<open>
  Claim C6. In the registry that \<^verbatim>\<open>buildRoutes\<close> returns and in each of the three
  committed route tables, every entry marked exact has no child routes; so an entry that
  has child routes, and acts as their prefix, is not marked exact.
\<close>

theorem exact_entries_are_leaves:
  "(buildRoutes docs = Inr reg \<longrightarrow> exact_leaves reg) \<and>
   exact_leaves routes_part_000 \<and>
   exact_leaves routes_part_000_b \<and>
   exact_leaves routes_part_001"
proof -
  have built: "exact_leaves reg" if ok: "buildRoutes docs = Inr reg"
  proof -
    let ?top = "top_entries docs"
    from ok have reg: "reg = ?top @ [fallback_entry]"
      by (simp add: buildRoutes_success)
    have "list_all (\<lambda>r. exact r \<longrightarrow> routes r = []) (all_entries ?top)"
      unfolding top_entries_def
      by (rule all_entries_nest) (simp add: entry_for_def)
    then show ?thesis
      unfolding exact_leaves_def reg all_entries_append all_entries_fallback
      by (simp add: fallback_entry_simps)
  qed
  have "exact_leaves routes_part_000"
    by (simp add: exact_leaves_def all_entries_def routes_part_000_def)
  moreover have "exact_leaves routes_part_000_b"
    by (simp add: exact_leaves_def all_entries_def routes_part_000_b_def)
  moreover have "exact_leaves routes_part_001"
    by (simp add: exact_leaves_def all_entries_def routes_part_001_def)
  ultimately show ?thesis using built by blast
qed

text \<open>
  A built registry with a parent entry and an exact child, and in the first committed
  table the exact entry of the page \<^verbatim>\<open>/docs/tools/mlflow\<close>, which has no child routes.
\<close>

theorem exact_entries_are_leaves_witness:
  "buildRoutes [Document ''/docs'' None, Document ''/docs/a'' (Some ''/docs'')]
     = Inr [Route ''/docs'' (ComponentCreator ''/docs'' None) False None
              [Route ''/docs/a'' (ComponentCreator ''/docs/a'' None) True None []],
            Route ''*'' (ComponentCreator ''*'' None) False None []] \<and>
   exact_leaves
     [Route ''/docs'' (ComponentCreator ''/docs'' None) False None
        [Route ''/docs/a'' (ComponentCreator ''/docs/a'' None) True None []],
      Route ''*'' (ComponentCreator ''*'' None) False None []] \<and>
   Route ''/docs/tools/mlflow'' (ComponentCreator ''/docs/tools/mlflow'' (Some ''a7c''))
       True (Some ''tutorialSidebar'') []
     \<in> set (all_entries routes_part_000) \<and>
   exact (Route ''/docs/tools/mlflow'' (ComponentCreator ''/docs/tools/mlflow'' (Some ''a7c''))
       True (Some ''tutorialSidebar'') [])"
proof -
  let ?docs = "[Document ''/docs'' None, Document ''/docs/a'' (Some ''/docs'')]"
  let ?reg = "[Route ''/docs'' (ComponentCreator ''/docs'' None) False None
        [Route ''/docs/a'' (ComponentCreator ''/docs/a'' None) True None []],
      Route ''*'' (ComponentCreator ''*'' None) False None []]"
  have built: "buildRoutes ?docs = Inr ?reg"
    by (simp add: buildRoutes_def build_errors_def orphan_paths_def is_orphan_def
          fallback_clash_def declares_fallback_def top_entries_def entry_for_def
          fallback_entry_def)
  have entry: "Route ''/docs/tools/mlflow'' (ComponentCreator ''/docs/tools/mlflow'' (Some ''a7c''))
       True (Some ''tutorialSidebar'') [] \<in> set (all_entries routes_part_000)"
    by (simp add: all_entries_def routes_part_000_def)
  from built entry show ?thesis
    using exact_entries_are_leaves [of ?docs ?reg] by simp
qed

section \<open>Sidebar pages and their routes\<close>

text \<open>
  Claim C7. Each of the six page identifiers listed under \<^verbatim>\<open>tutorialSidebar\<close> in
  \<^verbatim>\<open>src/sidebars.js\<close> names a page of the route registry: its route under \<^verbatim>\<open>/docs/\<close> is
  an entry of each of the three committed route tables.
\<close>

theorem sidebar_pages_have_routes:
  "sidebar_ids sidebars_js =
     [''getting-started/overview'', ''getting-started/quick-start'',
      ''repositories/overview'', ''repositories/mlops-platform'',
      ''tools/overview'', ''tools/mlflow''] \<and>
   set (map doc_route (sidebar_ids sidebars_js)) \<subseteq> set (all_paths routes_part_000) \<and>
   set (map doc_route (sidebar_ids sidebars_js)) \<subseteq> set (all_paths routes_part_000_b) \<and>
   set (map doc_route (sidebar_ids sidebars_js)) \<subseteq> set (all_paths routes_part_001)"
proof -
  have ids: "sidebar_ids sidebars_js =
     [''getting-started/overview'', ''getting-started/quick-start'',
      ''repositories/overview'', ''repositories/mlops-platform'',
      ''tools/overview'', ''tools/mlflow'']"
    by (simp add: sidebar_ids_def sidebars_js_def)
  have "set (map doc_route (sidebar_ids sidebars_js)) \<subseteq> set (all_paths routes_part_000)"
    unfolding ids by (simp add: doc_route_def all_paths_def all_entries_def routes_part_000_def)
  moreover have "set (map doc_route (sidebar_ids sidebars_js)) \<subseteq> set (all_paths routes_part_000_b)"
    unfolding ids by (simp add: doc_route_def all_paths_def all_entries_def routes_part_000_b_def)
  moreover have "set (map doc_route (sidebar_ids sidebars_js)) \<subseteq> set (all_paths routes_part_001)"
    unfolding ids by (simp add: doc_route_def all_paths_def all_entries_def routes_part_001_def)
  ultimately show ?thesis using ids by simp
qed

section \<open>Sidebar references on leaf pages\<close>

text \<open>
  Claim C8. In each of the three committed route tables, every entry that carries a
  sidebar reference is an exact entry without child routes; so no entry with child
  routes carries a sidebar reference.
\<close>

theorem sidebar_only_on_leaves:
  "sidebar_on_leaves routes_part_000 \<and>
   sidebar_on_leaves routes_part_000_b \<and>
   sidebar_on_leaves routes_part_001"
proof -
  have "sidebar_on_leaves routes_part_000"
    by (simp add: sidebar_on_leaves_def all_entries_def routes_part_000_def)
  moreover have "sidebar_on_leaves routes_part_000_b"
    by (simp add: sidebar_on_leaves_def all_entries_def routes_part_000_b_def)
  moreover have "sidebar_on_leaves routes_part_001"
    by (simp add: sidebar_on_leaves_def all_entries_def routes_part_001_def)
  ultimately show ?thesis by simp
qed

text \<open>
  The entry of the page \<^verbatim>\<open>/docs/getting-started/overview\<close> in the first committed table
  carries the sidebar reference, so it is exact and has no child routes.
\<close>

theorem sidebar_only_on_leaves_witness:
  "Route ''/docs/getting-started/overview''
       (ComponentCreator ''/docs/getting-started/overview'' (Some ''3b4''))
       True (Some ''tutorialSidebar'') []
     \<in> set (all_entries routes_part_000) \<and>
   sidebar (Route ''/docs/getting-started/overview''
       (ComponentCreator ''/docs/getting-started/overview'' (Some ''3b4''))
       True (Some ''tutorialSidebar'') []) \<noteq> None \<and>
   sidebar_on_leaves routes_part_000"
proof -
  have "Route ''/docs/getting-started/overview''
       (ComponentCreator ''/docs/getting-started/overview'' (Some ''3b4''))
       True (Some ''tutorialSidebar'') [] \<in> set (all_entries routes_part_000)"
    by (simp add: all_entries_def routes_part_000_def)
  then show ?thesis using sidebar_only_on_leaves by simp
qed

section \<open>Nesting follows path prefixes\<close>

text \<open>
  Claim C9. In each of the three committed route tables, for every entry with a list of
  child routes, the path of each child starts with the path of that entry.
\<close>

theorem children_extend_parent_path:
  "nested_by_prefix routes_part_000 \<and>
   nested_by_prefix routes_part_000_b \<and>
   nested_by_prefix routes_part_001"
proof -
  have "nested_by_prefix routes_part_000"
    by (simp add: nested_by_prefix_def all_entries_def routes_part_000_def)
  moreover have "nested_by_prefix routes_part_000_b"
    by (simp add: nested_by_prefix_def all_entries_def routes_part_000_b_def)
  moreover have "nested_by_prefix routes_part_001"
    by (simp add: nested_by_prefix_def all_entries_def routes_part_001_def)
  ultimately show ?thesis by simp
qed

section \<open>Root and fallback entries of the committed tables\<close>

text \<open>
  In each of the three committed route tables the entry with path \<^verbatim>\<open>/\<close> and the entry
  with path \<^verbatim>\<open>*\<close> each occur exactly once at the top level, and the \<^verbatim>\<open>*\<close> entry is the
  last top-level entry.
\<close>

lemma committed_tables_root_and_fallback:
  "root_and_fallback_once routes_part_000 \<and>
   root_and_fallback_once routes_part_000_b \<and>
   root_and_fallback_once routes_part_001"
proof -
  have "root_and_fallback_once routes_part_000"
    by (simp add: root_and_fallback_once_def occurrences_def routes_part_000_def)
  moreover have "root_and_fallback_once routes_part_000_b"
    by (simp add: root_and_fallback_once_def occurrences_def routes_part_000_b_def)
  moreover have "root_and_fallback_once routes_part_001"
    by (simp add: root_and_fallback_once_def occurrences_def routes_part_001_def)
  ultimately show ?thesis by simp
qed

section \<open>Sidebars and route tables of the same build\<close>

text \<open>
  Each committed sidebar belongs to one committed route table: the routes that carry the
  sidebar reference are the routes of the sidebar's pages. The sidebar of
  \<^verbatim>\<open>src/sidebars.js\<close> goes with the second table of \<^verbatim>\<open>src/unnamed/part_000\<close>, the sidebar
  of \<^verbatim>\<open>src/unnamed/part_015\<close> with the table of \<^verbatim>\<open>src/unnamed/part_001\<close>, and the sidebar
  of \<^verbatim>\<open>src/unnamed/part_016\<close> with the first table of \<^verbatim>\<open>src/unnamed/part_000\<close>.
\<close>

lemma sidebar_routes_of_sidebars_js:
  "set (map path (filter (\<lambda>r. sidebar r \<noteq> None) (all_entries routes_part_000_b)))
     = set (map doc_route (sidebar_ids sidebars_js))"
  by (simp add: all_entries_def routes_part_000_b_def doc_route_def sidebar_ids_def
        sidebars_js_def insert_commute)

lemma sidebar_routes_of_part_015:
  "set (map path (filter (\<lambda>r. sidebar r \<noteq> None) (all_entries routes_part_001)))
     = set (map doc_route (sidebar_ids sidebars_part_015))"
  by (simp add: all_entries_def routes_part_001_def doc_route_def sidebar_ids_def
        sidebars_part_015_def insert_commute)

lemma sidebar_routes_of_part_016:
  "set (map path (filter (\<lambda>r. sidebar r \<noteq> None) (all_entries routes_part_000)))
     = set (map doc_route (sidebar_ids sidebars_part_016))"
  by (simp add: all_entries_def routes_part_000_def doc_route_def sidebar_ids_def
        sidebars_part_016_def insert_commute)

end

